theory Spec2Isabelle
  imports Complex_Main
begin

section \<open>Values of the configuration file\<close>

text \<open>
  \<^verbatim>\<open>json.load\<close> returns dicts, lists, strings, ints, floats, booleans and \<^verbatim>\<open>None\<close>.
  A dict is an association list in insertion order, read with \<open>map_of\<close>; the dicts
  built by the \<^verbatim>\<open>to_dict\<close> methods have distinct keys. A finite float is carried as
  the real number it stands for: the code stores and returns floats, it never computes with them.
\<close>

datatype json =
    JNull
  | JBool bool
  | JInt int
  | JFloat real
  | JStr string
  | JList "json list"
  | JDict "(string \<times> json) list"

section \<open>Exceptions\<close>

record Installation =
  name :: string
  root :: string

text \<open>
  \<open>ValueError\<close> is what \<^verbatim>\<open>list.remove\<close> raises for a value that is not in the list,
  \<open>KeyError\<close> what a dict raises for a missing key, \<open>TypeError\<close> what subscripting,
  iterating or testing membership in a value of the wrong type raises, \<open>OSError\<close> what
  opening a file that cannot be written raises. \<open>IllTyped\<close> is no Python exception: it marks
  a file whose \<^verbatim>\<open>name\<close> or \<^verbatim>\<open>root\<close> is not a string, where Python would build an
  \<^verbatim>\<open>Installation\<close> outside the annotation \<^verbatim>\<open>__init__(self, name: str, root: str)\<close>.
\<close>

datatype error =
    InstallationDoesNotExistError string
  | InstallationAlreadyExistError Installation
  | ValueError
  | KeyError string
  | TypeError
  | OSError
  | IllTyped

section \<open>Dictionary access\<close>

text \<open>\<^verbatim>\<open>key in s\<close> for two strings: \<open>key\<close> occurs in \<open>s\<close> as a contiguous piece.\<close>

fun is_substring :: "string \<Rightarrow> string \<Rightarrow> bool" where
  "is_substring k [] = (k = [])"
| "is_substring k (c # s) = (take (length k) (c # s) = k \<or> is_substring k s)"

text \<open>\<^verbatim>\<open>key in source\<close> with a string key.\<close>

fun py_contains :: "json \<Rightarrow> string \<Rightarrow> error + bool" where
  "py_contains (JDict kvs) key = Inr (key \<in> fst ` set kvs)"
| "py_contains (JList xs) key = Inr (JStr key \<in> set xs)"
| "py_contains (JStr s) key = Inr (is_substring key s)"
| "py_contains _ key = Inl TypeError"

text \<open>\<^verbatim>\<open>source[key]\<close> with a string key.\<close>

fun py_getitem :: "json \<Rightarrow> string \<Rightarrow> error + json" where
  "py_getitem (JDict kvs) key =
     (case map_of kvs key of None \<Rightarrow> Inl (KeyError key) | Some v \<Rightarrow> Inr v)"
| "py_getitem _ key = Inl TypeError"

text \<open>The items a \<^verbatim>\<open>for\<close> loop over the value visits.\<close>

fun py_iter :: "json \<Rightarrow> error + json list" where
  "py_iter (JList xs) = Inr xs"
| "py_iter (JDict kvs) = Inr (map (\<lambda>kv. JStr (fst kv)) kvs)"
| "py_iter (JStr s) = Inr (map (\<lambda>c. JStr [c]) s)"
| "py_iter _ = Inl TypeError"

text \<open>
  \<^verbatim>\<open>return source[key] if key in source else fallback\<close>
\<close>

definition default_get :: "json \<Rightarrow> string \<Rightarrow> json \<Rightarrow> error + json" where
  "default_get source key fallback =
     (case py_contains source key of
        Inl e \<Rightarrow> Inl e
      | Inr b \<Rightarrow> if b then py_getitem source key else Inr fallback)"

section \<open>Installation\<close>

text \<open>\<^verbatim>\<open>__eq__\<close>: \<^verbatim>\<open>other.name == self.name\<close>.\<close>

definition Installation_eq :: "Installation \<Rightarrow> Installation \<Rightarrow> bool" where
  "Installation_eq self other = (name other = name self)"

definition Installation_from_dict :: "json \<Rightarrow> error + Installation" where
  "Installation_from_dict data =
     (case py_getitem data ''name'' of
        Inl e \<Rightarrow> Inl e
      | Inr nv \<Rightarrow>
          (case py_getitem data ''root'' of
             Inl e \<Rightarrow> Inl e
           | Inr rv \<Rightarrow>
               (case nv of
                  JStr n \<Rightarrow>
                    (case rv of
                       JStr r \<Rightarrow> Inr \<lparr>name = n, root = r\<rparr>
                     | _ \<Rightarrow> Inl IllTyped)
                | _ \<Rightarrow> Inl IllTyped)))"

definition Installation_to_dict :: "Installation \<Rightarrow> json" where
  "Installation_to_dict self = JDict [(''root'', JStr (root self)), (''name'', JStr (name self))]"

section \<open>Defaults\<close>

record Defaults =
  min_ram :: json
  max_ram :: json
  idle_time :: json
  backups :: json

text \<open>\<^verbatim>\<open>Defaults.__init__\<close>: the four fields are read in this order.\<close>

definition Defaults_init :: "json \<Rightarrow> error + Defaults" where
  "Defaults_init data =
     (case default_get data ''min-ram'' (JFloat (1 / 2)) of
        Inl e \<Rightarrow> Inl e
      | Inr a \<Rightarrow>
     (case default_get data ''max-ram'' (JInt 6) of
        Inl e \<Rightarrow> Inl e
      | Inr b \<Rightarrow>
     (case default_get data ''idle_time'' (JInt 0) of
        Inl e \<Rightarrow> Inl e
      | Inr c \<Rightarrow>
     (case default_get data ''backups'' (JInt 5) of
        Inl e \<Rightarrow> Inl e
      | Inr d \<Rightarrow> Inr \<lparr>min_ram = a, max_ram = b, idle_time = c, backups = d\<rparr>))))"

definition Defaults_from_dict :: "json \<Rightarrow> error + Defaults" where
  "Defaults_from_dict data = Defaults_init data"

definition Defaults_to_dict :: "Defaults \<Rightarrow> json" where
  "Defaults_to_dict self =
     JDict [(''min-ram'', min_ram self), (''max-ram'', max_ram self),
            (''idle_time'', idle_time self), (''backups'', backups self)]"

section \<open>Config\<close>

record Config =
  defaults :: Defaults
  installations :: "Installation list"

text \<open>A list comprehension whose body may raise: the first exception ends it.\<close>

fun map_raising :: "('a \<Rightarrow> error + 'b) \<Rightarrow> 'a list \<Rightarrow> error + 'b list" where
  "map_raising f [] = Inr []"
| "map_raising f (x # xs) =
     (case f x of
        Inl e \<Rightarrow> Inl e
      | Inr y \<Rightarrow> (case map_raising f xs of Inl e \<Rightarrow> Inl e | Inr ys \<Rightarrow> Inr (y # ys)))"

definition Config_from_dict :: "json \<Rightarrow> error + Config" where
  "Config_from_dict data =
     (case py_getitem data ''defaults'' of
        Inl e \<Rightarrow> Inl e
      | Inr dv \<Rightarrow>
     (case Defaults_from_dict dv of
        Inl e \<Rightarrow> Inl e
      | Inr d \<Rightarrow>
     (case py_getitem data ''installations'' of
        Inl e \<Rightarrow> Inl e
      | Inr iv \<Rightarrow>
     (case py_iter iv of
        Inl e \<Rightarrow> Inl e
      | Inr items \<Rightarrow>
     (case map_raising Installation_from_dict items of
        Inl e \<Rightarrow> Inl e
      | Inr is \<Rightarrow> Inr \<lparr>defaults = d, installations = is\<rparr>)))))"

definition Config_to_dict :: "Config \<Rightarrow> json" where
  "Config_to_dict self =
     JDict [(''defaults'', Defaults_to_dict (defaults self)),
            (''installations'', JList (map Installation_to_dict (installations self)))]"

text \<open>
  \<^verbatim>\<open>list.remove(value)\<close>: drops the first item equal to the value, by \<^verbatim>\<open>__eq__\<close>;
  \<open>None\<close> when no item is equal, where Python raises \<^verbatim>\<open>ValueError\<close>.
\<close>

fun list_remove :: "Installation list \<Rightarrow> Installation \<Rightarrow> Installation list option" where
  "list_remove [] v = None"
| "list_remove (x # xs) v =
     (if Installation_eq x v then Some xs
      else (case list_remove xs v of None \<Rightarrow> None | Some ys \<Rightarrow> Some (x # ys)))"

definition Config_remove_installation :: "Config \<Rightarrow> Installation \<Rightarrow> error + Config" where
  "Config_remove_installation self installation =
     (case list_remove (installations self) installation of
        None \<Rightarrow> Inl ValueError
      | Some xs \<Rightarrow> Inr (self\<lparr>installations := xs\<rparr>))"

definition get_installation :: "Config \<Rightarrow> string \<Rightarrow> Installation option" where
  "get_installation self n = find (\<lambda>installation. name installation = n) (installations self)"

section \<open>The process state\<close>

text \<open>
  The file system as the code sees it: what kind of node a path names, for
  \<^verbatim>\<open>os.path.exists\<close> and \<^verbatim>\<open>os.path.isdir\<close>; the JSON document in the file at
  \<^verbatim>\<open>CONFIG_FILE\<close>, if there is one; and whether that file can be opened for writing.
\<close>

datatype node = File | Dir

record filesystem =
  nodes :: "string \<Rightarrow> node option"
  config_file :: "json option"
  config_writable :: bool

definition exists :: "filesystem \<Rightarrow> string \<Rightarrow> bool" where
  "exists fs path = (nodes fs path \<noteq> None)"

definition isdir :: "filesystem \<Rightarrow> string \<Rightarrow> bool" where
  "isdir fs path = (nodes fs path = Some Dir)"

text \<open>
  The module-level \<^verbatim>\<open>CONFIG\<close> object, the file system, and the lines written by
  \<^verbatim>\<open>print\<close>. A function that may raise returns the exception or its value together with
  the state it leaves behind, since the code mutates \<^verbatim>\<open>CONFIG\<close> before it raises.
\<close>

record world =
  CONFIG :: Config
  disk :: filesystem
  stdout :: "string list"

definition print :: "string \<Rightarrow> world \<Rightarrow> world" where
  "print line w = w\<lparr>stdout := stdout w @ [line]\<rparr>"

text \<open>
  \<^verbatim>\<open>json.dump(CONFIG.to_dict(), config, indent=4)\<close> into the file opened for writing.
\<close>

definition write_config :: "world \<Rightarrow> (error + unit) \<times> world" where
  "write_config w =
     (if config_writable (disk w)
      then (Inr (), w\<lparr>disk := (disk w)\<lparr>config_file := Some (Config_to_dict (CONFIG w))\<rparr>\<rparr>)
      else (Inl OSError, w))"

subsection \<open>Colours\<close>

text \<open>The escape sequences of \<^verbatim>\<open>colorama\<close>.\<close>

definition Fore_RED :: string where
  "Fore_RED = CHR 0x1B # ''[31m''"

definition Fore_CYAN :: string where
  "Fore_CYAN = CHR 0x1B # ''[36m''"

definition Style_RESET_ALL :: string where
  "Style_RESET_ALL = CHR 0x1B # ''[0m''"

text \<open>\<^verbatim>\<open>f"{Fore.CYAN}{name}{Style.RESET_ALL}{after if after else ''}"\<close>\<close>

definition pretty_name_str :: "string \<Rightarrow> string option \<Rightarrow> string" where
  "pretty_name_str n after =
     Fore_CYAN @ n @ Style_RESET_ALL @ (case after of None \<Rightarrow> [] | Some a \<Rightarrow> a)"

definition pretty_name :: "Installation \<Rightarrow> string option \<Rightarrow> string" where
  "pretty_name self after = pretty_name_str (name self) after"

subsection \<open>Validation\<close>

definition ensure_exists :: "string \<Rightarrow> bool \<Rightarrow> world \<Rightarrow> (error + Installation) \<times> world" where
  "ensure_exists n remove_if_missing w =
     (let missing =
        (if remove_if_missing
         then (case Config_remove_installation (CONFIG w) \<lparr>name = n, root = []\<rparr> of
                 Inl e \<Rightarrow> (Inl e, w)
               | Inr c \<Rightarrow> (Inl (InstallationDoesNotExistError n), w\<lparr>CONFIG := c\<rparr>))
         else (Inl (InstallationDoesNotExistError n), w))
      in case get_installation (CONFIG w) n of
           None \<Rightarrow> missing
         | Some installation \<Rightarrow>
             if \<not> exists (disk w) (root installation) \<or> \<not> isdir (disk w) (root installation)
             then missing
             else (Inr installation, w))"

definition ensure_does_not_exist :: "string \<Rightarrow> world \<Rightarrow> (error + unit) \<times> world" where
  "ensure_does_not_exist n w =
     (case get_installation (CONFIG w) n of
        Some installation \<Rightarrow> (Inl (InstallationAlreadyExistError installation), w)
      | None \<Rightarrow> (Inr (), w))"

section \<open>Removing an installation\<close>

text \<open>
  \<^verbatim>\<open>yes_no_question\<close> and \<^verbatim>\<open>remove_dir\<close> are imported from \<^verbatim>\<open>fabricdw.common\<close>;
  they are parameters here: the answer to a question, and what deleting a tree does to the
  file system, with the exception it may raise. In \<open>remove_installation\<close> the branch for
  \<open>None\<close> after a true result stands for \<^verbatim>\<open>CONFIG.remove_installation(None)\<close>, where
  \<^verbatim>\<open>list.remove\<close> finds no equal item; \<open>private_remove_installation\<close> never returns
  true there.
\<close>

definition question :: "Installation \<Rightarrow> string" where
  "question i =
     ''Remove installation '' @ [CHR 0x27] @ name i @ [CHR 0x27] @ '' ('' @ root i @ '')?''
       @ [CHR 0x0A] @ ''This will delete all files!''"

definition private_remove_installation ::
  "(string \<Rightarrow> bool) \<Rightarrow> (string \<Rightarrow> filesystem \<Rightarrow> (error + unit) \<times> filesystem) \<Rightarrow>
     Installation option \<Rightarrow> string \<Rightarrow> world \<Rightarrow> (error + bool) \<times> world" where
  "private_remove_installation yes_no_question remove_dir active_installation fallback_name w =
     (case active_installation of
        None \<Rightarrow>
          (Inr False,
           print (Fore_RED @ ''installation '' @ [CHR 0x27]
                    @ pretty_name_str fallback_name (Some Fore_RED) @ [CHR 0x27]
                    @ '' does not exist!'' @ Style_RESET_ALL) w)
      | Some i \<Rightarrow>
          if \<not> exists (disk w) (root i) \<or> \<not> isdir (disk w) (root i)
          then (Inr True,
                print (''installation '' @ [CHR 0x27] @ pretty_name i None @ [CHR 0x27]
                         @ '' does not exist anymore.'') w)
          else if yes_no_question (question i)
          then (case remove_dir (root i) (disk w) of
                  (Inl e, fs) \<Rightarrow> (Inl e, w\<lparr>disk := fs\<rparr>)
                | (Inr u, fs) \<Rightarrow>
                    (Inr True,
                     print (''installation '' @ [CHR 0x27] @ pretty_name i None @ [CHR 0x27]
                              @ '' ('' @ root i @ '') deleted!'') (w\<lparr>disk := fs\<rparr>)))
          else (Inr False, print ''nothing deleted'' w))"

definition remove_installation ::
  "(string \<Rightarrow> bool) \<Rightarrow> (string \<Rightarrow> filesystem \<Rightarrow> (error + unit) \<times> filesystem) \<Rightarrow>
     string \<Rightarrow> world \<Rightarrow> (error + unit) \<times> world" where
  "remove_installation yes_no_question remove_dir installation_name w =
     (let active_installation = get_installation (CONFIG w) installation_name in
      case private_remove_installation yes_no_question remove_dir
             active_installation installation_name w of
        (Inl e, w1) \<Rightarrow> (Inl e, w1)
      | (Inr b, w1) \<Rightarrow>
          if b
          then (case active_installation of
                  None \<Rightarrow> (Inl ValueError, w1)
                | Some i \<Rightarrow>
                    (case Config_remove_installation (CONFIG w1) i of
                       Inl e \<Rightarrow> (Inl e, w1)
                     | Inr c \<Rightarrow> (Inr (), w1\<lparr>CONFIG := c\<rparr>)))
          else (Inr (), w1))"

section \<open>Scenarios\<close>

text \<open>
  The registries of the spec's scenarios: \<^verbatim>\<open>a\<close> at \<^verbatim>\<open>/tmp/a\<close>, which does not exist;
  \<^verbatim>\<open>b\<close> at \<^verbatim>\<open>/tmp/b\<close>, which is a directory; and the empty registry. In each the
  config file holds the registry as it was loaded.
\<close>

definition fallback_defaults :: Defaults where
  "fallback_defaults = \<lparr>min_ram = JFloat (1 / 2), max_ram = JInt 6, idle_time = JInt 0, backups = JInt 5\<rparr>"

definition registry_a :: Config where
  "registry_a = \<lparr>defaults = fallback_defaults, installations = [\<lparr>name = ''a'', root = ''/tmp/a''\<rparr>]\<rparr>"

definition registry_b :: Config where
  "registry_b = \<lparr>defaults = fallback_defaults, installations = [\<lparr>name = ''b'', root = ''/tmp/b''\<rparr>]\<rparr>"

definition registry_empty :: Config where
  "registry_empty = \<lparr>defaults = fallback_defaults, installations = []\<rparr>"

definition world_stale_a :: world where
  "world_stale_a =
     \<lparr>CONFIG = registry_a,
      disk = \<lparr>nodes = (\<lambda>path. None), config_file = Some (Config_to_dict registry_a),
              config_writable = True\<rparr>,
      stdout = []\<rparr>"

definition world_live_b :: world where
  "world_live_b =
     \<lparr>CONFIG = registry_b,
      disk = \<lparr>nodes = (\<lambda>path. if path = ''/tmp/b'' then Some Dir else None),
              config_file = Some (Config_to_dict registry_b), config_writable = True\<rparr>,
      stdout = []\<rparr>"

definition world_empty :: world where
  "world_empty =
     \<lparr>CONFIG = registry_empty,
      disk = \<lparr>nodes = (\<lambda>path. None), config_file = Some (Config_to_dict registry_empty),
              config_writable = True\<rparr>,
      stdout = []\<rparr>"

text \<open>Sample answers of the confirmation prompt.\<close>

definition always_yes :: "string \<Rightarrow> bool" where
  "always_yes message = True"

definition always_no :: "string \<Rightarrow> bool" where
  "always_no message = False"

text \<open>
  The theorems below hold for every \<^verbatim>\<open>remove_dir\<close>. For closed instances, a sample one
  that deletes the node at the path and raises nothing.
\<close>

definition remove_dir_sample :: "string \<Rightarrow> filesystem \<Rightarrow> (error + unit) \<times> filesystem" where
  "remove_dir_sample path fs = (Inr (), fs\<lparr>nodes := (nodes fs)(path := None)\<rparr>)"

section \<open>Default merge\<close>

lemma default_get_dict:
  "default_get (JDict d) key fallback =
     Inr (case map_of d key of None \<Rightarrow> fallback | Some v \<Rightarrow> v)"
proof (cases "map_of d key")
  case None
  then have "key \<notin> fst ` set d"
    by (simp add: map_of_eq_None_iff)
  then show ?thesis
    using None by (simp add: default_get_def)
next
  case (Some v)
  then have "key \<in> fst ` set d"
    by (metis map_of_eq_None_iff option.distinct(1))
  then show ?thesis
    using Some by (simp add: default_get_def)
qed

text \<open>
  C6. For every dict \<open>d\<close>, \<^verbatim>\<open>Defaults.from_dict(d)\<close> resolves each of the four fields on
  its own: the field is the value of \<open>d\<close> at its key (\<^verbatim>\<open>"min-ram"\<close>, \<^verbatim>\<open>"max-ram"\<close>,
  \<^verbatim>\<open>"idle_time"\<close>, \<^verbatim>\<open>"backups"\<close>) when the key is present and the fallback (0.5, 6, 0, 5)
  otherwise; the empty dict gives (0.5, 6, 0, 5), and \<^verbatim>\<open>{"min-ram": 1.0}\<close> gives
  (1.0, 6, 0, 5).
\<close>

theorem Defaults_from_dict_merge:
  "Defaults_from_dict (JDict d) =
     Inr \<lparr>min_ram = (case map_of d ''min-ram'' of None \<Rightarrow> JFloat (1 / 2) | Some v \<Rightarrow> v),
          max_ram = (case map_of d ''max-ram'' of None \<Rightarrow> JInt 6 | Some v \<Rightarrow> v),
          idle_time = (case map_of d ''idle_time'' of None \<Rightarrow> JInt 0 | Some v \<Rightarrow> v),
          backups = (case map_of d ''backups'' of None \<Rightarrow> JInt 5 | Some v \<Rightarrow> v)\<rparr>
   \<and> Defaults_from_dict (JDict []) =
     Inr \<lparr>min_ram = JFloat (1 / 2), max_ram = JInt 6, idle_time = JInt 0, backups = JInt 5\<rparr>
   \<and> Defaults_from_dict (JDict [(''min-ram'', JFloat 1)]) =
     Inr \<lparr>min_ram = JFloat 1, max_ram = JInt 6, idle_time = JInt 0, backups = JInt 5\<rparr>"
  by (simp add: Defaults_from_dict_def Defaults_init_def default_get_dict)

section \<open>Round trip\<close>

lemma Installation_round_trip:
  "Installation_from_dict (Installation_to_dict i) = Inr i"
  by (simp add: Installation_from_dict_def Installation_to_dict_def)

lemma installations_round_trip:
  "map_raising Installation_from_dict (map Installation_to_dict xs) = Inr xs"
  by (induction xs) (simp_all add: Installation_round_trip)

lemma Defaults_round_trip:
  "Defaults_from_dict (Defaults_to_dict d) = Inr d"
  by (simp add: Defaults_from_dict_def Defaults_init_def Defaults_to_dict_def default_get_def)

lemma Config_round_trip:
  "Config_from_dict (Config_to_dict c) = Inr c"
  by (simp add: Config_from_dict_def Config_to_dict_def Defaults_round_trip
      installations_round_trip)

text \<open>
  C5. For every \<open>Config\<close> value \<open>c\<close>, \<^verbatim>\<open>Config.from_dict(c.to_dict())\<close> returns a config
  whose installations have the same sequence of (name, root) pairs as those of \<open>c\<close> and whose
  four defaults fields equal those of \<open>c\<close>.
\<close>

theorem Config_from_dict_to_dict:
  "\<exists>c'. Config_from_dict (Config_to_dict c) = Inr c'
     \<and> map (\<lambda>i. (name i, root i)) (installations c') = map (\<lambda>i. (name i, root i)) (installations c)
     \<and> min_ram (defaults c') = min_ram (defaults c)
     \<and> max_ram (defaults c') = max_ram (defaults c)
     \<and> idle_time (defaults c') = idle_time (defaults c)
     \<and> backups (defaults c') = backups (defaults c)"
  by (simp add: Config_round_trip)

section \<open>The list of installations\<close>

lemma find_split:
  "find P xs = Some i \<Longrightarrow> \<exists>pre post. xs = pre @ i # post \<and> P i \<and> (\<forall>j \<in> set pre. \<not> P j)"
proof (induction xs)
  case Nil
  then show ?case by simp
next
  case (Cons x xs)
  show ?case
  proof (cases "P x")
    case True
    with Cons.prems have "x = i" by simp
    with True have "x # xs = [] @ i # xs \<and> P i \<and> (\<forall>j \<in> set []. \<not> P j)" by simp
    then show ?thesis by blast
  next
    case False
    with Cons.prems have "find P xs = Some i" by simp
    from Cons.IH [OF this] obtain pre post
      where "xs = pre @ i # post" "P i" "\<forall>j \<in> set pre. \<not> P j" by blast
    with False have "x # xs = (x # pre) @ i # post \<and> P i \<and> (\<forall>j \<in> set (x # pre). \<not> P j)"
      by simp
    then show ?thesis by blast
  qed
qed

lemma list_remove_first:
  "name v \<notin> name ` set pre \<Longrightarrow> name x = name v \<Longrightarrow>
     list_remove (pre @ x # post) v = Some (pre @ post)"
  by (induction pre) (auto simp: Installation_eq_def)

lemma list_remove_absent:
  "name v \<notin> name ` set xs \<Longrightarrow> list_remove xs v = None"
  by (induction xs) (auto simp: Installation_eq_def)

lemma name_split:
  "n \<in> name ` set xs \<Longrightarrow>
     \<exists>pre x post. xs = pre @ x # post \<and> name x = n \<and> n \<notin> name ` set pre"
proof (induction xs)
  case Nil
  then show ?case by simp
next
  case (Cons y ys)
  show ?case
  proof (cases "name y = n")
    case True
    then have "y # ys = [] @ y # ys \<and> name y = n \<and> n \<notin> name ` set []" by simp
    then show ?thesis by blast
  next
    case False
    with Cons.prems have "n \<in> name ` set ys" by auto
    from Cons.IH [OF this] obtain pre x post
      where "ys = pre @ x # post" "name x = n" "n \<notin> name ` set pre" by blast
    with False have "y # ys = (y # pre) @ x # post \<and> name x = n \<and> n \<notin> name ` set (y # pre)"
      by auto
    then show ?thesis by blast
  qed
qed

lemma get_installation_split:
  assumes "get_installation c n = Some i"
  shows "\<exists>pre post. installations c = pre @ i # post \<and> name i = n \<and> n \<notin> name ` set pre"
proof -
  from find_split [OF assms [unfolded get_installation_def]] obtain pre post
    where "installations c = pre @ i # post" "name i = n" "\<forall>j \<in> set pre. name j \<noteq> n"
    by blast
  then have "installations c = pre @ i # post \<and> name i = n \<and> n \<notin> name ` set pre" by auto
  then show ?thesis by blast
qed

lemma get_installation_None:
  "get_installation c n = None \<longleftrightarrow> n \<notin> name ` set (installations c)"
  by (auto simp: get_installation_def find_None_iff)

text \<open>
  Under the invariant of the data model, no two records of one name, a record of the list
  is the one its name resolves to.
\<close>

lemma find_unique:
  "distinct (map name xs) \<Longrightarrow> i \<in> set xs \<Longrightarrow> find (\<lambda>j. name j = name i) xs = Some i"
  by (induction xs) (auto simp: image_iff)

lemma get_installation_unique:
  "distinct (map name (installations c)) \<Longrightarrow> i \<in> set (installations c) \<Longrightarrow>
     get_installation c (name i) = Some i"
  by (simp add: get_installation_def find_unique)

lemma Config_remove_installation_found:
  assumes "installations c = pre @ i # post" and "name i \<notin> name ` set pre"
  shows "Config_remove_installation c i = Inr (c\<lparr>installations := pre @ post\<rparr>)"
  using assms by (simp add: Config_remove_installation_def list_remove_first)

lemma singleton_split:
  "[x] = pre @ y # post \<Longrightarrow> pre = [] \<and> post = []"
  by (cases pre) simp_all

text \<open>
  C9. For every config, \<^verbatim>\<open>remove_installation(i)\<close> removes exactly the first record whose
  name equals the name of \<open>i\<close>, whatever the roots are, and fails with the not-found error
  of \<^verbatim>\<open>list.remove\<close> when no record has that name.
\<close>

theorem Config_remove_installation_first:
  "(name i \<in> name ` set (installations c) \<longrightarrow>
      (\<exists>pre x post. installations c = pre @ x # post \<and> name x = name i
         \<and> name i \<notin> name ` set pre
         \<and> Config_remove_installation c i = Inr (c\<lparr>installations := pre @ post\<rparr>)))
   \<and> (name i \<notin> name ` set (installations c) \<longrightarrow>
        Config_remove_installation c i = Inl ValueError)"
proof (intro conjI impI)
  assume "name i \<in> name ` set (installations c)"
  from name_split [OF this] obtain pre x post
    where s: "installations c = pre @ x # post" "name x = name i" "name i \<notin> name ` set pre"
    by blast
  then have "Config_remove_installation c i = Inr (c\<lparr>installations := pre @ post\<rparr>)"
    by (simp add: Config_remove_installation_def list_remove_first)
  with s show "\<exists>pre x post. installations c = pre @ x # post \<and> name x = name i
         \<and> name i \<notin> name ` set pre
         \<and> Config_remove_installation c i = Inr (c\<lparr>installations := pre @ post\<rparr>)"
    by blast
next
  assume "name i \<notin> name ` set (installations c)"
  then show "Config_remove_installation c i = Inl ValueError"
    by (simp add: Config_remove_installation_def list_remove_absent)
qed

theorem Config_remove_installation_first_witness:
  "name \<lparr>name = ''a'', root = []\<rparr>
     \<in> name ` set [\<lparr>name = ''b'', root = ''/1''\<rparr>, \<lparr>name = ''a'', root = ''/2''\<rparr>,
                    \<lparr>name = ''a'', root = ''/3''\<rparr>]
   \<and> Config_remove_installation
       \<lparr>defaults = fallback_defaults,
        installations = [\<lparr>name = ''b'', root = ''/1''\<rparr>, \<lparr>name = ''a'', root = ''/2''\<rparr>,
                         \<lparr>name = ''a'', root = ''/3''\<rparr>]\<rparr>
       \<lparr>name = ''a'', root = []\<rparr>
     = Inr \<lparr>defaults = fallback_defaults,
            installations = [\<lparr>name = ''b'', root = ''/1''\<rparr>, \<lparr>name = ''a'', root = ''/3''\<rparr>]\<rparr>
   \<and> name \<lparr>name = ''a'', root = ''/tmp/b''\<rparr> \<notin> name ` set (installations registry_b)
   \<and> Config_remove_installation registry_b \<lparr>name = ''a'', root = ''/tmp/b''\<rparr> = Inl ValueError"
proof -
  let ?c = "\<lparr>defaults = fallback_defaults,
            installations = [\<lparr>name = ''b'', root = ''/1''\<rparr>, \<lparr>name = ''a'', root = ''/2''\<rparr>,
                             \<lparr>name = ''a'', root = ''/3''\<rparr>]\<rparr>"
  let ?i = "\<lparr>name = ''a'', root = []\<rparr>"
  have m: "name ?i \<in> name ` set (installations ?c)"
    by simp
  with Config_remove_installation_first [of ?i ?c] obtain pre x post
    where s: "installations ?c = pre @ x # post" "name x = name ?i" "name ?i \<notin> name ` set pre"
      and r: "Config_remove_installation ?c ?i = Inr (?c\<lparr>installations := pre @ post\<rparr>)"
    by blast
  have "pre @ post = [\<lparr>name = ''b'', root = ''/1''\<rparr>, \<lparr>name = ''a'', root = ''/3''\<rparr>]"
    using r by (simp add: Config_remove_installation_def Installation_eq_def)
  with r have p: "Config_remove_installation ?c ?i
     = Inr \<lparr>defaults = fallback_defaults,
            installations = [\<lparr>name = ''b'', root = ''/1''\<rparr>, \<lparr>name = ''a'', root = ''/3''\<rparr>]\<rparr>"
    by simp
  have a: "name \<lparr>name = ''a'', root = ''/tmp/b''\<rparr> \<notin> name ` set (installations registry_b)"
    by (simp add: registry_b_def)
  with Config_remove_installation_first [of "\<lparr>name = ''a'', root = ''/tmp/b''\<rparr>" registry_b]
  have "Config_remove_installation registry_b \<lparr>name = ''a'', root = ''/tmp/b''\<rparr> = Inl ValueError"
    by blast
  with m p a show ?thesis
    by simp
qed

section \<open>Validation of names\<close>

text \<open>
  C1. The claim: with no record named \<open>n\<close> in the list, \<^verbatim>\<open>ensure_exists(n)\<close> with
  \<^verbatim>\<open>remove_if_missing\<close> at its default raises \<^verbatim>\<open>InstallationDoesNotExistError\<close> without
  a removal step. The code: the default is true, so the removal of \<^verbatim>\<open>Installation(n, "")\<close> is
  attempted, and the \<^verbatim>\<open>ValueError\<close> of \<^verbatim>\<open>list.remove\<close> is what leaves the call, before
  the \<^verbatim>\<open>raise\<close> is reached; the state is unchanged.
\<close>

theorem ensure_exists_absent:
  assumes "n \<notin> name ` set (installations (CONFIG w))"
  shows "ensure_exists n True w = (Inl ValueError, w)"
proof -
  have "get_installation (CONFIG w) n = None"
    using assms by (simp add: get_installation_None)
  moreover have "Config_remove_installation (CONFIG w) \<lparr>name = n, root = []\<rparr> = Inl ValueError"
    using assms by (simp add: Config_remove_installation_def list_remove_absent)
  ultimately show ?thesis
    by (simp add: ensure_exists_def)
qed

theorem ensure_exists_absent_witness:
  "''a'' \<notin> name ` set (installations (CONFIG world_empty))
   \<and> get_installation (CONFIG world_empty) ''a'' = None
   \<and> ensure_exists ''a'' True world_empty = (Inl ValueError, world_empty)"
proof -
  have h: "''a'' \<notin> name ` set (installations (CONFIG world_empty))"
    by (simp add: world_empty_def registry_empty_def)
  have "get_installation (CONFIG world_empty) ''a'' = None"
    by (simp add: get_installation_def world_empty_def registry_empty_def)
  with h ensure_exists_absent [OF h] show ?thesis
    by simp
qed

lemma ensure_exists_stale_removes:
  assumes "get_installation (CONFIG w) n = Some i"
    and "\<not> exists (disk w) (root i) \<or> \<not> isdir (disk w) (root i)"
    and "installations (CONFIG w) = pre @ i # post"
    and "n \<notin> name ` set pre"
  shows "ensure_exists n True w =
           (Inl (InstallationDoesNotExistError n),
            w\<lparr>CONFIG := (CONFIG w)\<lparr>installations := pre @ post\<rparr>\<rparr>)"
proof -
  have "name i = n"
    using get_installation_split [OF assms(1)] by blast
  then have "list_remove (installations (CONFIG w)) \<lparr>name = n, root = []\<rparr> = Some (pre @ post)"
    using assms(3,4) by (simp add: list_remove_first)
  then show ?thesis
    using assms(1,2) by (auto simp: ensure_exists_def Config_remove_installation_def)
qed

text \<open>
  C3. When the record that \<open>n\<close> names has a root that does not exist or is not a directory,
  \<^verbatim>\<open>ensure_exists(n)\<close> with \<^verbatim>\<open>remove_if_missing\<close> true first removes that record from the
  list of installations and then raises \<^verbatim>\<open>InstallationDoesNotExistError\<close> carrying \<open>n\<close>. The
  record that \<open>n\<close> names is the one \<^verbatim>\<open>get_installation\<close> returns, the first of that name.
\<close>

theorem ensure_exists_stale:
  assumes "get_installation (CONFIG w) n = Some i"
    and "\<not> exists (disk w) (root i) \<or> \<not> isdir (disk w) (root i)"
  shows "\<exists>pre post. installations (CONFIG w) = pre @ i # post \<and> n \<notin> name ` set pre
           \<and> ensure_exists n True w =
               (Inl (InstallationDoesNotExistError n),
                w\<lparr>CONFIG := (CONFIG w)\<lparr>installations := pre @ post\<rparr>\<rparr>)"
proof -
  from get_installation_split [OF assms(1)] obtain pre post
    where s: "installations (CONFIG w) = pre @ i # post" "n \<notin> name ` set pre"
    by blast
  from ensure_exists_stale_removes [OF assms s] s show ?thesis
    by blast
qed

theorem ensure_exists_stale_witness:
  "get_installation (CONFIG world_stale_a) ''a'' = Some \<lparr>name = ''a'', root = ''/tmp/a''\<rparr>
   \<and> \<not> exists (disk world_stale_a) ''/tmp/a''
   \<and> ensure_exists ''a'' True world_stale_a =
       (Inl (InstallationDoesNotExistError ''a''),
        world_stale_a\<lparr>CONFIG := registry_a\<lparr>installations := []\<rparr>\<rparr>)"
proof -
  let ?i = "\<lparr>name = ''a'', root = ''/tmp/a''\<rparr>"
  have g: "get_installation (CONFIG world_stale_a) ''a'' = Some ?i"
    by (simp add: get_installation_def world_stale_a_def registry_a_def)
  have e: "\<not> exists (disk world_stale_a) ''/tmp/a''"
    by (simp add: exists_def world_stale_a_def)
  then have "\<not> exists (disk world_stale_a) (root ?i) \<or> \<not> isdir (disk world_stale_a) (root ?i)"
    by simp
  from ensure_exists_stale [OF g this] obtain pre post
    where s: "installations (CONFIG world_stale_a) = pre @ ?i # post"
      and r: "ensure_exists ''a'' True world_stale_a =
               (Inl (InstallationDoesNotExistError ''a''),
                world_stale_a\<lparr>CONFIG := (CONFIG world_stale_a)\<lparr>installations := pre @ post\<rparr>\<rparr>)"
    by blast
  from s have "pre = [] \<and> post = []"
    by (cases pre) (simp_all add: world_stale_a_def registry_a_def)
  with r g e show ?thesis
    by (simp add: world_stale_a_def)
qed

text \<open>
  C10. With \<^verbatim>\<open>remove_if_missing=False\<close>, \<^verbatim>\<open>ensure_exists(n)\<close> on a name that is absent from
  the registry, or whose record has a root that is not a live directory, raises
  \<^verbatim>\<open>InstallationDoesNotExistError\<close> and leaves the whole state, the list of installations
  included, as it was.
\<close>

theorem ensure_exists_keep:
  assumes "get_installation (CONFIG w) n = None
           \<or> (\<exists>i. get_installation (CONFIG w) n = Some i
                  \<and> (\<not> exists (disk w) (root i) \<or> \<not> isdir (disk w) (root i)))"
  shows "ensure_exists n False w = (Inl (InstallationDoesNotExistError n), w)"
  using assms by (auto simp: ensure_exists_def)

theorem ensure_exists_keep_witness:
  "get_installation (CONFIG world_empty) ''a'' = None
   \<and> ensure_exists ''a'' False world_empty
       = (Inl (InstallationDoesNotExistError ''a''), world_empty)
   \<and> get_installation (CONFIG world_stale_a) ''a'' = Some \<lparr>name = ''a'', root = ''/tmp/a''\<rparr>
   \<and> \<not> exists (disk world_stale_a) ''/tmp/a''
   \<and> ensure_exists ''a'' False world_stale_a
       = (Inl (InstallationDoesNotExistError ''a''), world_stale_a)"
proof -
  have g0: "get_installation (CONFIG world_empty) ''a'' = None"
    by (simp add: get_installation_def world_empty_def registry_empty_def)
  have g1: "get_installation (CONFIG world_stale_a) ''a'' = Some \<lparr>name = ''a'', root = ''/tmp/a''\<rparr>"
    by (simp add: get_installation_def world_stale_a_def registry_a_def)
  have e: "\<not> exists (disk world_stale_a) ''/tmp/a''"
    by (simp add: exists_def world_stale_a_def)
  have r0: "ensure_exists ''a'' False world_empty
       = (Inl (InstallationDoesNotExistError ''a''), world_empty)"
    using g0 by (intro ensure_exists_keep) simp
  have r1: "ensure_exists ''a'' False world_stale_a
       = (Inl (InstallationDoesNotExistError ''a''), world_stale_a)"
    using g1 e by (intro ensure_exists_keep) simp
  from g0 g1 e r0 r1 show ?thesis
    by simp
qed

text \<open>
  C4. \<^verbatim>\<open>ensure_does_not_exist(n)\<close> raises \<^verbatim>\<open>InstallationAlreadyExistError\<close> exactly when
  \<^verbatim>\<open>get_installation(n)\<close> returns a record; the exception carries that record, and it is
  raised on every file system, so whether the root is a live directory plays no part. When
  there is no record the call returns nothing and the state is unchanged.
\<close>

theorem ensure_does_not_exist_iff:
  "((\<exists>i. fst (ensure_does_not_exist n w) = Inl (InstallationAlreadyExistError i))
      \<longleftrightarrow> get_installation (CONFIG w) n \<noteq> None)
   \<and> (\<forall>i. get_installation (CONFIG w) n = Some i \<longrightarrow>
          ensure_does_not_exist n (w\<lparr>disk := fs\<rparr>)
            = (Inl (InstallationAlreadyExistError i), w\<lparr>disk := fs\<rparr>))
   \<and> (get_installation (CONFIG w) n = None \<longrightarrow> ensure_does_not_exist n w = (Inr (), w))"
  by (cases "get_installation (CONFIG w) n") (simp_all add: ensure_does_not_exist_def)

theorem ensure_does_not_exist_iff_witness:
  "get_installation (CONFIG world_live_b) ''b'' = Some \<lparr>name = ''b'', root = ''/tmp/b''\<rparr>
   \<and> \<not> exists (disk world_stale_a) ''/tmp/b''
   \<and> ensure_does_not_exist ''b'' (world_live_b\<lparr>disk := disk world_stale_a\<rparr>)
       = (Inl (InstallationAlreadyExistError \<lparr>name = ''b'', root = ''/tmp/b''\<rparr>), world_live_b\<lparr>disk := disk world_stale_a\<rparr>)
   \<and> get_installation (CONFIG world_live_b) ''a'' = None
   \<and> ensure_does_not_exist ''a'' world_live_b = (Inr (), world_live_b)"
proof -
  have g: "get_installation (CONFIG world_live_b) ''b'' = Some \<lparr>name = ''b'', root = ''/tmp/b''\<rparr>"
    by (simp add: get_installation_def world_live_b_def registry_b_def)
  have e: "\<not> exists (disk world_stale_a) ''/tmp/b''"
    by (simp add: exists_def world_stale_a_def)
  have n: "get_installation (CONFIG world_live_b) ''a'' = None"
    by (simp add: get_installation_def world_live_b_def registry_b_def)
  from ensure_does_not_exist_iff [of "''b''" world_live_b "disk world_stale_a"] g
  have r: "ensure_does_not_exist ''b'' (world_live_b\<lparr>disk := disk world_stale_a\<rparr>)
       = (Inl (InstallationAlreadyExistError \<lparr>name = ''b'', root = ''/tmp/b''\<rparr>), world_live_b\<lparr>disk := disk world_stale_a\<rparr>)"
    by blast
  from ensure_does_not_exist_iff [of "''a''" world_live_b "disk world_live_b"] n
  have "ensure_does_not_exist ''a'' world_live_b = (Inr (), world_live_b)"
    by blast
  with g e n r show ?thesis
    by simp
qed

section \<open>The remove command\<close>

lemma private_remove_installation_stale:
  assumes "\<not> exists (disk w) (root i) \<or> \<not> isdir (disk w) (root i)"
  shows "private_remove_installation yes_no_question remove_dir (Some i) n w =
           (Inr True,
            w\<lparr>stdout := stdout w @ [''installation '' @ [CHR 0x27] @ pretty_name i None @ [CHR 0x27]
                                       @ '' does not exist anymore.'']\<rparr>)"
  using assms by (auto simp: private_remove_installation_def print_def)

lemma private_remove_installation_declined:
  assumes "exists (disk w) (root i)" and "isdir (disk w) (root i)"
    and "\<not> yes_no_question (question i)"
  shows "private_remove_installation yes_no_question remove_dir (Some i) n w =
           (Inr False, w\<lparr>stdout := stdout w @ [''nothing deleted'']\<rparr>)"
  using assms by (simp add: private_remove_installation_def print_def)

lemma private_remove_installation_confirmed:
  assumes "exists (disk w) (root i)" and "isdir (disk w) (root i)"
    and "yes_no_question (question i)"
    and "remove_dir (root i) (disk w) = (Inr u, fs)"
  shows "private_remove_installation yes_no_question remove_dir (Some i) n w =
           (Inr True,
            w\<lparr>disk := fs,
              stdout := stdout w @ [''installation '' @ [CHR 0x27] @ pretty_name i None @ [CHR 0x27]
                                       @ '' ('' @ root i @ '') deleted!'']\<rparr>)"
  using assms by (simp add: private_remove_installation_def print_def)

text \<open>
  C7. When the record that \<open>n\<close> names has a root that fails the live-directory check, the
  remove operation prints that the installation does not exist anymore and returns true; the
  caller then removes that record from the list of installations, and the file system is as
  it was: nothing is deleted.
\<close>

theorem remove_installation_stale:
  assumes "get_installation (CONFIG w) n = Some i"
    and "\<not> exists (disk w) (root i) \<or> \<not> isdir (disk w) (root i)"
  shows "\<exists>pre post. installations (CONFIG w) = pre @ i # post \<and> n \<notin> name ` set pre
           \<and> private_remove_installation yes_no_question remove_dir (Some i) n w =
               (Inr True,
                w\<lparr>stdout := stdout w @ [''installation '' @ [CHR 0x27] @ pretty_name i None
                                           @ [CHR 0x27] @ '' does not exist anymore.'']\<rparr>)
           \<and> remove_installation yes_no_question remove_dir n w =
               (Inr (),
                w\<lparr>CONFIG := (CONFIG w)\<lparr>installations := pre @ post\<rparr>,
                  stdout := stdout w @ [''installation '' @ [CHR 0x27] @ pretty_name i None
                                           @ [CHR 0x27] @ '' does not exist anymore.'']\<rparr>)
           \<and> disk (snd (remove_installation yes_no_question remove_dir n w)) = disk w"
proof -
  from get_installation_split [OF assms(1)] obtain pre post
    where s: "installations (CONFIG w) = pre @ i # post" "name i = n" "n \<notin> name ` set pre"
    by blast
  have p: "private_remove_installation yes_no_question remove_dir (Some i) n w =
               (Inr True,
                w\<lparr>stdout := stdout w @ [''installation '' @ [CHR 0x27] @ pretty_name i None
                                           @ [CHR 0x27] @ '' does not exist anymore.'']\<rparr>)"
    using assms(2) by (rule private_remove_installation_stale)
  have c: "Config_remove_installation (CONFIG w) i = Inr ((CONFIG w)\<lparr>installations := pre @ post\<rparr>)"
    using s by (simp add: Config_remove_installation_found)
  have r: "remove_installation yes_no_question remove_dir n w =
               (Inr (),
                w\<lparr>CONFIG := (CONFIG w)\<lparr>installations := pre @ post\<rparr>,
                  stdout := stdout w @ [''installation '' @ [CHR 0x27] @ pretty_name i None
                                           @ [CHR 0x27] @ '' does not exist anymore.'']\<rparr>)"
    by (simp add: remove_installation_def assms(1) p c)
  then have "disk (snd (remove_installation yes_no_question remove_dir n w)) = disk w"
    by simp
  with s p r show ?thesis
    by blast
qed

theorem remove_installation_stale_witness:
  "get_installation (CONFIG world_stale_a) ''a'' = Some \<lparr>name = ''a'', root = ''/tmp/a''\<rparr>
   \<and> \<not> exists (disk world_stale_a) ''/tmp/a''
   \<and> private_remove_installation always_no remove_dir_sample (Some \<lparr>name = ''a'', root = ''/tmp/a''\<rparr>) ''a'' world_stale_a
       = (Inr True, world_stale_a\<lparr>stdout := [''installation '' @ [CHR 0x27] @ Fore_CYAN @ ''a'' @ Style_RESET_ALL @ [CHR 0x27] @ '' does not exist anymore.'']\<rparr>)
   \<and> remove_installation always_no remove_dir_sample ''a'' world_stale_a
       = (Inr (),
          world_stale_a\<lparr>CONFIG := registry_a\<lparr>installations := []\<rparr>,
            stdout := [''installation '' @ [CHR 0x27] @ Fore_CYAN @ ''a'' @ Style_RESET_ALL @ [CHR 0x27] @ '' does not exist anymore.'']\<rparr>)"
proof -
  let ?i = "\<lparr>name = ''a'', root = ''/tmp/a''\<rparr>"
  have g: "get_installation (CONFIG world_stale_a) ''a'' = Some ?i"
    by (simp add: get_installation_def world_stale_a_def registry_a_def)
  have e: "\<not> exists (disk world_stale_a) ''/tmp/a''"
    by (simp add: exists_def world_stale_a_def)
  then have "\<not> exists (disk world_stale_a) (root ?i) \<or> \<not> isdir (disk world_stale_a) (root ?i)"
    by simp
  from remove_installation_stale [OF g this, of always_no remove_dir_sample] obtain pre post
    where s: "installations (CONFIG world_stale_a) = pre @ ?i # post"
      and p: "private_remove_installation always_no remove_dir_sample (Some ?i) ''a'' world_stale_a =
               (Inr True,
                world_stale_a\<lparr>stdout := stdout world_stale_a
                   @ [''installation '' @ [CHR 0x27] @ pretty_name ?i None
                        @ [CHR 0x27] @ '' does not exist anymore.'']\<rparr>)"
      and r: "remove_installation always_no remove_dir_sample ''a'' world_stale_a =
               (Inr (),
                world_stale_a\<lparr>CONFIG := (CONFIG world_stale_a)\<lparr>installations := pre @ post\<rparr>,
                  stdout := stdout world_stale_a
                   @ [''installation '' @ [CHR 0x27] @ pretty_name ?i None
                        @ [CHR 0x27] @ '' does not exist anymore.'']\<rparr>)"
    by blast
  from s have "pre = [] \<and> post = []"
    by (intro singleton_split [of ?i]) (simp add: world_stale_a_def registry_a_def)
  with g e p r show ?thesis
    by (simp add: world_stale_a_def pretty_name_def pretty_name_str_def)
qed

text \<open>
  C8. When the record that \<open>n\<close> names is live and the confirmation prompt is declined, the
  remove operation returns false, the list of installations is unchanged, and the file
  system is as it was: no directory is deleted.
\<close>

theorem remove_installation_declined:
  assumes "get_installation (CONFIG w) n = Some i"
    and "exists (disk w) (root i)" and "isdir (disk w) (root i)"
    and "\<not> yes_no_question (question i)"
  shows "private_remove_installation yes_no_question remove_dir (Some i) n w =
           (Inr False, w\<lparr>stdout := stdout w @ [''nothing deleted'']\<rparr>)
         \<and> remove_installation yes_no_question remove_dir n w =
           (Inr (), w\<lparr>stdout := stdout w @ [''nothing deleted'']\<rparr>)
         \<and> installations (CONFIG (snd (remove_installation yes_no_question remove_dir n w)))
             = installations (CONFIG w)
         \<and> disk (snd (remove_installation yes_no_question remove_dir n w)) = disk w"
proof -
  have p: "private_remove_installation yes_no_question remove_dir (Some i) n w =
           (Inr False, w\<lparr>stdout := stdout w @ [''nothing deleted'']\<rparr>)"
    using assms(2,3,4) by (rule private_remove_installation_declined)
  have r: "remove_installation yes_no_question remove_dir n w =
           (Inr (), w\<lparr>stdout := stdout w @ [''nothing deleted'']\<rparr>)"
    by (simp add: remove_installation_def assms(1) p)
  with p show ?thesis
    by simp
qed

theorem remove_installation_declined_witness:
  "get_installation (CONFIG world_live_b) ''b'' = Some \<lparr>name = ''b'', root = ''/tmp/b''\<rparr>
   \<and> exists (disk world_live_b) ''/tmp/b'' \<and> isdir (disk world_live_b) ''/tmp/b''
   \<and> \<not> always_no (question \<lparr>name = ''b'', root = ''/tmp/b''\<rparr>)
   \<and> private_remove_installation always_no remove_dir_sample (Some \<lparr>name = ''b'', root = ''/tmp/b''\<rparr>) ''b'' world_live_b
       = (Inr False, world_live_b\<lparr>stdout := [''nothing deleted'']\<rparr>)
   \<and> remove_installation always_no remove_dir_sample ''b'' world_live_b
       = (Inr (), world_live_b\<lparr>stdout := [''nothing deleted'']\<rparr>)"
proof -
  let ?i = "\<lparr>name = ''b'', root = ''/tmp/b''\<rparr>"
  have g: "get_installation (CONFIG world_live_b) ''b'' = Some ?i"
    by (simp add: get_installation_def world_live_b_def registry_b_def)
  have e: "exists (disk world_live_b) (root ?i)"
    by (simp add: exists_def world_live_b_def)
  have d: "isdir (disk world_live_b) (root ?i)"
    by (simp add: isdir_def world_live_b_def)
  have a: "\<not> always_no (question ?i)"
    by (simp add: always_no_def)
  from remove_installation_declined [where yes_no_question = always_no, OF g e d a, of remove_dir_sample]
    g e d a show ?thesis
    by (simp add: world_live_b_def)
qed

text \<open>
  C2, as claimed: on any success path the command removes the record and then persists the
  updated config. In the scenario of the stale \<^verbatim>\<open>a\<close> the command succeeds and empties the
  registry, while the config file still holds the registry with \<^verbatim>\<open>a\<close> in it.
\<close>

theorem remove_installation_not_persisted:
  "fst (remove_installation always_yes remove_dir_sample ''a'' world_stale_a) = Inr ()
   \<and> installations (CONFIG (snd (remove_installation always_yes remove_dir_sample ''a'' world_stale_a))) = []
   \<and> config_file (disk (snd (remove_installation always_yes remove_dir_sample ''a'' world_stale_a)))
       = Some (Config_to_dict registry_a)
   \<and> config_file (disk (snd (remove_installation always_yes remove_dir_sample ''a'' world_stale_a)))
       \<noteq> Some (Config_to_dict
                 (CONFIG (snd (remove_installation always_yes remove_dir_sample ''a'' world_stale_a))))"
  by (simp add: remove_installation_def private_remove_installation_def get_installation_def
      Config_remove_installation_def Installation_eq_def exists_def isdir_def print_def
      world_stale_a_def registry_a_def Config_to_dict_def)

text \<open>
  C2, amended. When \<open>n\<close> names a record, on either success path (the root fails the
  live-directory check; or it is live, the prompt is confirmed and \<^verbatim>\<open>remove_dir\<close> returns)
  the command returns no value and removes that record from the in-memory registry. It does
  not write the config store: the file system, the config file in it, is as it was on the
  first path and as \<^verbatim>\<open>remove_dir\<close> left it on the second.
\<close>

theorem remove_installation_in_memory_only:
  assumes "get_installation (CONFIG w) n = Some i"
  shows "\<exists>pre post. installations (CONFIG w) = pre @ i # post \<and> n \<notin> name ` set pre
     \<and> (\<not> exists (disk w) (root i) \<or> \<not> isdir (disk w) (root i) \<longrightarrow>
            fst (remove_installation yes_no_question remove_dir n w) = Inr ()
          \<and> CONFIG (snd (remove_installation yes_no_question remove_dir n w))
              = (CONFIG w)\<lparr>installations := pre @ post\<rparr>
          \<and> disk (snd (remove_installation yes_no_question remove_dir n w)) = disk w)
     \<and> (exists (disk w) (root i) \<and> isdir (disk w) (root i) \<and> yes_no_question (question i)
          \<and> remove_dir (root i) (disk w) = (Inr (), fs) \<longrightarrow>
            fst (remove_installation yes_no_question remove_dir n w) = Inr ()
          \<and> CONFIG (snd (remove_installation yes_no_question remove_dir n w))
              = (CONFIG w)\<lparr>installations := pre @ post\<rparr>
          \<and> disk (snd (remove_installation yes_no_question remove_dir n w)) = fs)"
proof -
  from get_installation_split [OF assms] obtain pre post
    where s: "installations (CONFIG w) = pre @ i # post" "name i = n" "n \<notin> name ` set pre"
    by blast
  have c: "Config_remove_installation (CONFIG w) i = Inr ((CONFIG w)\<lparr>installations := pre @ post\<rparr>)"
    using s by (simp add: Config_remove_installation_found)
  have stale: "fst (remove_installation yes_no_question remove_dir n w) = Inr ()
          \<and> CONFIG (snd (remove_installation yes_no_question remove_dir n w))
              = (CONFIG w)\<lparr>installations := pre @ post\<rparr>
          \<and> disk (snd (remove_installation yes_no_question remove_dir n w)) = disk w"
    if "\<not> exists (disk w) (root i) \<or> \<not> isdir (disk w) (root i)"
    by (simp add: remove_installation_def assms c private_remove_installation_stale [OF that])
  have confirmed: "fst (remove_installation yes_no_question remove_dir n w) = Inr ()
          \<and> CONFIG (snd (remove_installation yes_no_question remove_dir n w))
              = (CONFIG w)\<lparr>installations := pre @ post\<rparr>
          \<and> disk (snd (remove_installation yes_no_question remove_dir n w)) = fs"
    if "exists (disk w) (root i) \<and> isdir (disk w) (root i) \<and> yes_no_question (question i)
          \<and> remove_dir (root i) (disk w) = (Inr (), fs)"
  proof -
    have "private_remove_installation yes_no_question remove_dir (Some i) n w =
           (Inr True,
            w\<lparr>disk := fs,
              stdout := stdout w @ [''installation '' @ [CHR 0x27] @ pretty_name i None @ [CHR 0x27]
                                       @ '' ('' @ root i @ '') deleted!'']\<rparr>)"
      using that by (intro private_remove_installation_confirmed) simp_all
    then show ?thesis
      by (simp add: remove_installation_def assms c)
  qed
  from s stale confirmed show ?thesis
    by blast
qed

theorem remove_installation_in_memory_only_witness:
  "get_installation (CONFIG world_live_b) ''b'' = Some \<lparr>name = ''b'', root = ''/tmp/b''\<rparr>
   \<and> exists (disk world_live_b) ''/tmp/b'' \<and> isdir (disk world_live_b) ''/tmp/b''
   \<and> fst (remove_installation always_yes remove_dir_sample ''b'' world_live_b) = Inr ()
   \<and> installations (CONFIG (snd (remove_installation always_yes remove_dir_sample ''b'' world_live_b))) = []
   \<and> config_file (disk (snd (remove_installation always_yes remove_dir_sample ''b'' world_live_b)))
       = Some (Config_to_dict registry_b)
   \<and> nodes (disk (snd (remove_installation always_yes remove_dir_sample ''b'' world_live_b))) ''/tmp/b''
       = None"
proof -
  let ?i = "\<lparr>name = ''b'', root = ''/tmp/b''\<rparr>"
  let ?fs = "snd (remove_dir_sample ''/tmp/b'' (disk world_live_b))"
  let ?res = "remove_installation always_yes remove_dir_sample ''b'' world_live_b"
  have g: "get_installation (CONFIG world_live_b) ''b'' = Some ?i"
    by (simp add: get_installation_def world_live_b_def registry_b_def)
  have l: "exists (disk world_live_b) (root ?i) \<and> isdir (disk world_live_b) (root ?i)
           \<and> always_yes (question ?i)
           \<and> remove_dir_sample (root ?i) (disk world_live_b) = (Inr (), ?fs)"
    by (simp add: exists_def isdir_def world_live_b_def always_yes_def remove_dir_sample_def)
  from remove_installation_in_memory_only [OF g, of always_yes remove_dir_sample ?fs] obtain pre post
    where s: "installations (CONFIG world_live_b) = pre @ ?i # post"
      and r: "exists (disk world_live_b) (root ?i) \<and> isdir (disk world_live_b) (root ?i)
                \<and> always_yes (question ?i)
                \<and> remove_dir_sample (root ?i) (disk world_live_b) = (Inr (), ?fs) \<longrightarrow>
              fst ?res = Inr ()
              \<and> CONFIG (snd ?res) = (CONFIG world_live_b)\<lparr>installations := pre @ post\<rparr>
              \<and> disk (snd ?res) = ?fs"
    by blast
  from s have e: "pre = [] \<and> post = []"
    by (intro singleton_split [of ?i]) (simp add: world_live_b_def registry_b_def)
  from r l have "fst ?res = Inr ()
              \<and> CONFIG (snd ?res) = (CONFIG world_live_b)\<lparr>installations := pre @ post\<rparr>
              \<and> disk (snd ?res) = ?fs"
    by blast
  with e g l show ?thesis
    by (simp add: remove_dir_sample_def world_live_b_def)
qed

end
